theory Spec2Isabelle
  imports Complex_Main
begin

section \<open>The chandelier-stop strategy snippets of docs/ce.md\<close>

text \<open>
  The strategy document gives its key functions as Python. Python's floats are read
  here as real numbers: every comparison and every arithmetic step of the snippets is
  kept, rounding is not modelled. Names that the snippets read without defining
  (\<open>params\<close>, \<open>atr\<close>, \<open>initial_risk\<close>, \<open>atr_current\<close>, the highs and ATR values of
  \<open>calculate_dynamic_stop\<close>) are arguments of the model.
\<close>

datatype py_error = KeyError | ValueError | ZeroDivisionError

subsection \<open>Data\<close>

text \<open>
  \<open>new_high\<close> and \<open>atr\<close> are dictionaries indexed with \<open>'daily'\<close> and \<open>'hourly'\<close>.
  A key that is absent makes the subscript raise \<open>KeyError\<close>.
\<close>

datatype timeframe = Daily | Hourly

type_synonym py_dict = "timeframe \<rightharpoonup> real"

definition subscript :: "py_dict \<Rightarrow> timeframe \<Rightarrow> py_error + real" where
  "subscript d k = (case d k of None \<Rightarrow> Inl KeyError | Some v \<Rightarrow> Inr v)"

record params =
  daily_multiplier :: real
  hourly_multiplier :: real
  max_add_times :: nat
  add_ratio :: real

record strategy =
  last_close :: real
  entry_price :: real
  current_risk :: real
  add_count :: nat
  init_size :: real

subsection \<open>calculate\_dynamic\_stop (section 5.1 of the document)\<close>

text \<open>
  \<open>max(last_8_hours_high)\<close> has one argument, so that argument is a sequence; Python's
  \<open>max\<close> of an empty sequence raises \<open>ValueError\<close>. \<open>max(last_22_days_high,
  current_day_high)\<close> compares two numbers.
\<close>

fun py_max :: "real list \<Rightarrow> py_error + real" where
  "py_max [] = Inl ValueError"
| "py_max (x # xs) = Inr (fold max xs x)"

definition calculate_dynamic_stop ::
  "real \<Rightarrow> real \<Rightarrow> real \<Rightarrow> real list \<Rightarrow> real \<Rightarrow> py_error + real" where
  "calculate_dynamic_stop last_22_days_high current_day_high daily_atr
       last_8_hours_high hourly_atr =
     (let daily_high = max last_22_days_high current_day_high;
          daily_stop = daily_high - 3 * daily_atr
      in case py_max last_8_hours_high of
           Inl e \<Rightarrow> Inl e
         | Inr hourly_high \<Rightarrow>
             (let hourly_stop = hourly_high - 2 * hourly_atr
              in Inr (max daily_stop hourly_stop)))"

subsection \<open>update\_trailing\_stop (section 8.1)\<close>

definition update_trailing_stop ::
  "strategy \<Rightarrow> py_dict \<Rightarrow> params \<Rightarrow> py_dict \<Rightarrow> py_error + real" where
  "update_trailing_stop strategy new_high params atr =
     (case subscript new_high Daily of
        Inl e \<Rightarrow> Inl e
      | Inr high_d \<Rightarrow>
     (case subscript atr Daily of
        Inl e \<Rightarrow> Inl e
      | Inr atr_d \<Rightarrow>
     (case subscript new_high Hourly of
        Inl e \<Rightarrow> Inl e
      | Inr high_h \<Rightarrow>
     (case subscript atr Hourly of
        Inl e \<Rightarrow> Inl e
      | Inr atr_h \<Rightarrow>
         (let daily_stop = high_d - daily_multiplier params * atr_d;
              hourly_stop = high_h - hourly_multiplier params * atr_h;
              final_stop = max daily_stop hourly_stop
          in if final_stop < last_close strategy * 0.98
             then Inr (last_close strategy * 0.98)
             else Inr final_stop)))))"

subsection \<open>add\_position\_check (section 8.2)\<close>

text \<open>
  The function returns nothing; what it does is call \<open>strategy.add_position\<close> with a
  price, a size and a stop when its three conditions hold. The model returns the
  arguments of that call, or \<open>None\<close> when no call is made. \<open>add_count\<close> is a count of
  adds, a natural number, so \<open>add_ratio ** add_count\<close> is a power with a natural
  exponent. The keyword argument \<open>size\<close> of the call is the field \<open>new_lot_size\<close>.
\<close>

record add_position_args =
  price :: real
  new_lot_size :: real
  stop :: real

definition add_position_check ::
  "real \<Rightarrow> strategy \<Rightarrow> real \<Rightarrow> params \<Rightarrow> real \<Rightarrow> add_position_args option" where
  "add_position_check current_price strategy initial_risk params atr_current =
     (let cond1 = current_price > entry_price strategy * 1.03;
          cond2 = current_risk strategy < initial_risk * 0.7;
          cond3 = add_count strategy < max_add_times params
      in if cond1 \<and> cond2 \<and> cond3
         then (let new_size = init_size strategy * (add_ratio params ^ add_count strategy)
               in Some \<lparr>price = current_price, new_lot_size = new_size,
                         stop = current_price - 1.5 * atr_current\<rparr>)
         else None)"

subsection \<open>position\_size (section 6.1)\<close>

text \<open>
  Two assignments at top level; \<open>account_value\<close>, \<open>entry_price\<close> (the argument
  \<open>entry\<close> here, \<open>entry_price\<close> being the strategy's field above) and \<open>initial_stop\<close>
  are read. The risk share is the literal \<open>0.01\<close>. Python's \<open>/\<close> raises
  \<open>ZeroDivisionError\<close> on a zero divisor.
\<close>

definition position_size :: "real \<Rightarrow> real \<Rightarrow> real \<Rightarrow> py_error + real" where
  "position_size account_value entry initial_stop =
     (let risk_per_trade = account_value * 0.01
      in if entry - initial_stop = 0 then Inl ZeroDivisionError
         else Inr (risk_per_trade / (entry - initial_stop)))"

text \<open>
  The sizing contract in the words of the specification, for comparison with
  \<open>position_size\<close>: the size is the risk budget over the absolute stop distance, and a
  stop distance is invalid when it is zero or the stop is on the wrong side of the entry
  (long: stop at or above entry; short: stop at or below entry).
\<close>

datatype direction = Long | Short

definition initial_size_spec :: "real \<Rightarrow> real \<Rightarrow> real \<Rightarrow> real \<Rightarrow> real" where
  "initial_size_spec account_value risk_fraction entry initial_stop =
     (account_value * risk_fraction) / \<bar>entry - initial_stop\<bar>"

definition invalid_stop_distance_spec :: "direction \<Rightarrow> real \<Rightarrow> real \<Rightarrow> bool" where
  "invalid_stop_distance_spec d entry initial_stop =
     (entry - initial_stop = 0 \<or>
      (case d of Long \<Rightarrow> initial_stop \<ge> entry | Short \<Rightarrow> initial_stop \<le> entry))"

text \<open>
  Gap protection in the words of the specification (section 4.1), for comparison with
  \<open>update_trailing_stop\<close>: a long's candidate is clamped from below at 98 percent of
  the last close; mirrored for a short, the candidate is clamped from above at 102
  percent of the last close.
\<close>

definition gap_protection_spec :: "direction \<Rightarrow> real \<Rightarrow> real \<Rightarrow> real" where
  "gap_protection_spec d candidate close_price =
     (case d of
        Long \<Rightarrow> max candidate (close_price * 0.98)
      | Short \<Rightarrow> min candidate (close_price * 1.02))"

text \<open>
  The add rules in the words of the specification, for comparison with
  \<open>add_position_check\<close>: an add is eligible when the price has made a new high since
  entry, the current risk is below 0.7 of the initial risk, the add count is below the
  maximum and the current ATR is below 1.5 initial ATRs; the first add is 30 percent of
  the initial size and the second 15 percent (the ladder of the document's table in
  section 6.2 has these two steps).
\<close>

definition add_eligible_spec ::
  "bool \<Rightarrow> real \<Rightarrow> real \<Rightarrow> nat \<Rightarrow> nat \<Rightarrow> real \<Rightarrow> real \<Rightarrow> bool" where
  "add_eligible_spec new_high_since_entry current_risk_now initial_risk adds max_adds
       atr_current initial_atr =
     (new_high_since_entry \<and> current_risk_now < initial_risk * 0.7 \<and> adds < max_adds
      \<and> atr_current < 1.5 * initial_atr)"

definition ladder_size_spec :: "real \<Rightarrow> nat \<Rightarrow> real option" where
  "ladder_size_spec initial_size adds =
     (if adds = 0 then Some (0.3 * initial_size)
      else if adds = 1 then Some (0.15 * initial_size)
      else None)"

section \<open>The risk monitor of the specification\<close>

text \<open>
  Modelled from the spec: \<open>RiskMonitor.evaluate\<close> (section 4.3 of the specification).
  The repository's files contain no risk monitor; docs/ce.md has the risk matrix as a
  table only. The rules are evaluated in the order of the matrix, every rule that
  matches records one event, and the first event governs the mandatory action. A price
  has crossed the stop against the direction when it is below the stop of a long or
  above the stop of a short. The instruction to the stop calculator is a flag of the
  result.
\<close>

datatype risk_kind = Reversal | Liquidity | Volatility | Resistance | Overnight

datatype risk_action = Flatten | Halt_adds | Reduce_50 | Reduce_20 | Reduce_30

record risk_event =
  timestamp :: nat
  kind :: risk_kind
  metric_value :: real
  action :: risk_action

record position =
  direction :: direction
  final_stop :: real

record market_snapshot =
  snapshot_time :: nat
  last_price :: real
  order_book_depth :: real
  average_daily_volume :: real
  atr_15m :: real
  atr_daily :: real
  in_resistance_band :: bool
  in_overnight_window :: bool
  current_exposure :: real
  overnight_limit :: real

record risk_result =
  events :: "risk_event list"
  tighten_stop_multiplier :: bool

text \<open>
  Modelled from the spec: rule 1 of the matrix, "price has crossed (against direction)
  the active final\_stop"; the risk monitor's code is not among the repository's files.
\<close>

definition trend_reversal :: "position \<Rightarrow> market_snapshot \<Rightarrow> bool" where
  "trend_reversal pos snap =
     (case direction pos of
        Long \<Rightarrow> last_price snap < final_stop pos
      | Short \<Rightarrow> last_price snap > final_stop pos)"

text \<open>
  Modelled from the spec: rule 3 of the matrix, "15-minute ATR > 1.5 x daily ATR"; the
  risk monitor's code is not among the repository's files.
\<close>

definition volatility_spike :: "market_snapshot \<Rightarrow> bool" where
  "volatility_spike snap = (atr_15m snap > 1.5 * atr_daily snap)"

text \<open>
  Modelled from the spec: a rule that matches records one \<open>RiskEvent\<close> with its kind,
  metric value and action; the risk monitor's code is not among the repository's files.
\<close>

definition event_if :: "bool \<Rightarrow> nat \<Rightarrow> risk_kind \<Rightarrow> real \<Rightarrow> risk_action \<Rightarrow> risk_event list" where
  "event_if matched t k v a =
     (if matched then [\<lparr>timestamp = t, kind = k, metric_value = v, action = a\<rparr>] else [])"

text \<open>
  Modelled from the spec: \<open>evaluate(position, market_snapshot, params)\<close>, the five rules
  in the matrix's priority order (reversal: flatten; depth below 5 percent of the
  average daily volume: halt-adds; volatility spike: reduce-50 and the tightened
  multiplier; resistance band: reduce-20; overnight window with exposure over the limit:
  reduce-30); the risk monitor's code is not among the repository's files.
\<close>

definition evaluate :: "position \<Rightarrow> market_snapshot \<Rightarrow> risk_result" where
  "evaluate pos snap =
     \<lparr>events =
        event_if (trend_reversal pos snap) (snapshot_time snap) Reversal
          (last_price snap) Flatten
        @ event_if (order_book_depth snap < 0.05 * average_daily_volume snap)
            (snapshot_time snap) Liquidity (order_book_depth snap) Halt_adds
        @ event_if (volatility_spike snap) (snapshot_time snap) Volatility
            (atr_15m snap) Reduce_50
        @ event_if (in_resistance_band snap) (snapshot_time snap) Resistance
            (last_price snap) Reduce_20
        @ event_if (in_overnight_window snap \<and> current_exposure snap > overnight_limit snap)
            (snapshot_time snap) Overnight (current_exposure snap) Reduce_30,
      tighten_stop_multiplier = volatility_spike snap\<rparr>"

text \<open>
  Modelled from the spec: "first qualifying match governs the position's mandatory
  action for that cycle"; the risk monitor's code is not among the repository's files.
\<close>

definition mandatory_action :: "risk_event list \<Rightarrow> risk_action option" where
  "mandatory_action evs = (case evs of [] \<Rightarrow> None | e # _ \<Rightarrow> Some (action e))"

section \<open>The message history of admin/static/js/main.js\<close>

text \<open>
  \<open>wsManager.connect\<close> installs the handler \<open>ws.onmessage\<close>. Of the manager's state
  the model keeps \<open>messages\<close>: the handler's later steps (the switch on the message
  type, \<open>updateMarketData\<close>, \<open>updateOrderData\<close>, \<open>dispatchEvent\<close>) neither read nor write
  it and run after it has been updated. \<open>JSON.parse\<close> is not modelled: an event is
  either text that \<open>JSON.parse\<close> rejects (it throws \<open>SyntaxError\<close>), or the parsed
  value, of which the handler reads the properties \<open>type\<close> and \<open>data\<close>. Reading a
  property of \<open>null\<close> or of \<open>undefined\<close> throws \<open>TypeError\<close>; of any other value the
  property is there or \<open>undefined\<close>. The \<open>data\<close> of a message is \<open>undefined\<close>,
  \<open>null\<close> or a present value: \<open>updateMarketData\<close> reads \<open>data.symbol\<close> and
  \<open>updateOrderData\<close> reads \<open>data.order_id\<close>, which throw on the first two. The
  \<open>type\<close> is a string or \<open>None\<close>, which stands for \<open>undefined\<close>, \<open>null\<close> and
  every value that is not a string: none of them matches a case of the switch.
  \<open>Date.now()\<close> and \<open>new Date()\<close> are the argument \<open>now\<close>. An exception ends the handler
  with \<open>messages\<close> as it is at that point; the first component of the result is the
  exception, if any.
\<close>

datatype js_error = SyntaxError | TypeError

datatype 'd js_prop = Undefined | Null | Present 'd

datatype 'd json = JNull | JValue "string option" "'d js_prop"

datatype 'd ws_event = Malformed | Wellformed "'d json"

record 'd history_entry =
  msg_id :: nat
  msg_time :: nat
  msg_type :: "string option"
  msg_data :: "'d js_prop"

definition dispatch_error :: "string option \<Rightarrow> 'd js_prop \<Rightarrow> js_error option" where
  "dispatch_error ty dat =
     (if (ty = Some ''market_data'' \<or> ty = Some ''order_update'')
         \<and> (dat = Undefined \<or> dat = Null)
      then Some TypeError else None)"

definition onmessage ::
  "'d ws_event \<Rightarrow> nat \<Rightarrow> 'd history_entry list \<Rightarrow> js_error option \<times> 'd history_entry list" where
  "onmessage event now messages =
     (case event of
        Malformed \<Rightarrow> (Some SyntaxError, messages)
      | Wellformed JNull \<Rightarrow> (Some TypeError, messages)
      | Wellformed (JValue ty dat) \<Rightarrow>
          (let pushed = messages @
                 [\<lparr>msg_id = now, msg_time = now, msg_type = ty, msg_data = dat\<rparr>];
               limited = (if length pushed > 100 then tl pushed else pushed)
           in (dispatch_error ty dat, limited)))"

text \<open>The history after a sequence of events, each with its arrival time.\<close>

fun handle_all :: "('d ws_event \<times> nat) list \<Rightarrow> 'd history_entry list \<Rightarrow> 'd history_entry list" where
  "handle_all [] messages = messages"
| "handle_all ((event, now) # rest) messages =
     handle_all rest (snd (onmessage event now messages))"

section \<open>Properties\<close>

subsection \<open>Hybrid time frames\<close>

lemma fold_max_Max: "fold max xs (x::real) = Max (set (x # xs))"
  by (rule Max.set_eq_fold [symmetric])

text \<open>
  C7. With data on both time frames (the hourly highs are not empty),
  \<open>calculate_dynamic_stop\<close> returns the larger of the daily stop (the higher of the
  22-day high and today's high, less three daily ATRs) and the hourly stop (the highest
  of the hourly highs, less two hourly ATRs); a daily stop of 118 and an hourly stop of
  121 give 121.
\<close>

theorem calculate_dynamic_stop_max:
  assumes "last_8_hours_high \<noteq> []"
  shows "calculate_dynamic_stop last_22_days_high current_day_high daily_atr
           last_8_hours_high hourly_atr =
         Inr (max (max last_22_days_high current_day_high - 3 * daily_atr)
                  (Max (set last_8_hours_high) - 2 * hourly_atr))
       \<and> (max last_22_days_high current_day_high - 3 * daily_atr = 118
            \<and> Max (set last_8_hours_high) - 2 * hourly_atr = 121
          \<longrightarrow> calculate_dynamic_stop last_22_days_high current_day_high daily_atr
                last_8_hours_high hourly_atr = Inr 121)"
proof -
  from assms obtain x xs where l: "last_8_hours_high = x # xs"
    by (cases last_8_hours_high) auto
  have "py_max last_8_hours_high = Inr (Max (set last_8_hours_high))"
    unfolding l by (simp only: py_max.simps fold_max_Max)
  then have eq: "calculate_dynamic_stop last_22_days_high current_day_high daily_atr
           last_8_hours_high hourly_atr =
         Inr (max (max last_22_days_high current_day_high - 3 * daily_atr)
                  (Max (set last_8_hours_high) - 2 * hourly_atr))"
    by (simp add: calculate_dynamic_stop_def Let_def)
  show ?thesis
    unfolding eq by simp
qed

theorem calculate_dynamic_stop_max_witness:
  "[123, 125, 124 :: real] \<noteq> []
   \<and> max 128 130 - 3 * 4 = (118 :: real)
   \<and> Max (set [123, 125, 124]) - 2 * 2 = (121 :: real)
   \<and> calculate_dynamic_stop 128 130 4 [123, 125, 124] 2 = Inr 121"
  using calculate_dynamic_stop_max [of "[123, 125, 124]" 128 130 4 2]
  by simp

subsection \<open>The trailing stop\<close>

text \<open>
  With both keys present in both dictionaries the call returns the largest of the daily
  stop, the hourly stop and 98 percent of the last close.
\<close>

lemma update_trailing_stop_value:
  assumes "new_high Daily = Some high_d" and "new_high Hourly = Some high_h"
    and "atr Daily = Some atr_d" and "atr Hourly = Some atr_h"
  shows "update_trailing_stop strategy new_high params atr =
         Inr (max (max (high_d - daily_multiplier params * atr_d)
                       (high_h - hourly_multiplier params * atr_h))
                  (last_close strategy * 0.98))"
  using assms
  by (simp add: update_trailing_stop_def subscript_def Let_def max_def)

lemma update_trailing_stop_KeyError:
  assumes "new_high Daily = None \<or> new_high Hourly = None
           \<or> atr Daily = None \<or> atr Hourly = None"
  shows "update_trailing_stop strategy new_high params atr = Inl KeyError"
  using assms
  by (auto simp add: update_trailing_stop_def subscript_def split: option.splits)

text \<open>
  C6 as stated. The claim has the clamp mirrored for shorts. \<open>update_trailing_stop\<close>
  has no direction and applies the long clamp to whatever it is given. With a last close
  of 100 and a candidate of 122, the mirrored clamp of a short gives 102 and the function
  returns 122; with a last close of 130 and the same candidate, the mirrored clamp leaves
  122 and the function returns 127.4.
\<close>

theorem update_trailing_stop_no_short_mirror:
  "update_trailing_stop
     \<lparr>last_close = 100, entry_price = 100, current_risk = 6000, add_count = 0,
      init_size = 2000\<rparr>
     [Daily \<mapsto> 130, Hourly \<mapsto> 128]
     \<lparr>daily_multiplier = 3, hourly_multiplier = 2, max_add_times = 2, add_ratio = 0.3\<rparr>
     [Daily \<mapsto> 4, Hourly \<mapsto> 3] = Inr 122
   \<and> gap_protection_spec Short 122 100 = 102
   \<and> update_trailing_stop
     \<lparr>last_close = 130, entry_price = 100, current_risk = 6000, add_count = 0,
      init_size = 2000\<rparr>
     [Daily \<mapsto> 130, Hourly \<mapsto> 128]
     \<lparr>daily_multiplier = 3, hourly_multiplier = 2, max_add_times = 2, add_ratio = 0.3\<rparr>
     [Daily \<mapsto> 4, Hourly \<mapsto> 3] = Inr 127.4
   \<and> gap_protection_spec Short 122 130 = 122"
  by (simp add: update_trailing_stop_def subscript_def gap_protection_spec_def)

text \<open>
  C6 as amended. Gap protection of \<open>update_trailing_stop\<close>, the long side, which is
  the only one the function has: when the candidate \<open>max(daily_stop, hourly_stop)\<close> is
  strictly below \<open>last_close * 0.98\<close> the returned stop is exactly
  \<open>last_close * 0.98\<close>; a candidate at or above that bound is returned unchanged.
\<close>

theorem update_trailing_stop_gap_protection:
  assumes "new_high Daily = Some high_d" and "new_high Hourly = Some high_h"
    and "atr Daily = Some atr_d" and "atr Hourly = Some atr_h"
  shows "(max (high_d - daily_multiplier params * atr_d)
              (high_h - hourly_multiplier params * atr_h) < last_close strategy * 0.98
          \<longrightarrow> update_trailing_stop strategy new_high params atr =
                Inr (last_close strategy * 0.98))
       \<and> (last_close strategy * 0.98 \<le>
            max (high_d - daily_multiplier params * atr_d)
                (high_h - hourly_multiplier params * atr_h)
          \<longrightarrow> update_trailing_stop strategy new_high params atr =
                Inr (max (high_d - daily_multiplier params * atr_d)
                         (high_h - hourly_multiplier params * atr_h)))"
  unfolding update_trailing_stop_value [OF assms]
  by (simp add: max_def)

theorem update_trailing_stop_gap_protection_witness:
  "update_trailing_stop
     \<lparr>last_close = 130, entry_price = 100, current_risk = 6000, add_count = 0,
      init_size = 2000\<rparr>
     [Daily \<mapsto> 130, Hourly \<mapsto> 128]
     \<lparr>daily_multiplier = 3, hourly_multiplier = 2, max_add_times = 2, add_ratio = 0.3\<rparr>
     [Daily \<mapsto> 4, Hourly \<mapsto> 3] = Inr (130 * 0.98)
   \<and> update_trailing_stop
     \<lparr>last_close = 120, entry_price = 100, current_risk = 6000, add_count = 0,
      init_size = 2000\<rparr>
     [Daily \<mapsto> 130, Hourly \<mapsto> 128]
     \<lparr>daily_multiplier = 3, hourly_multiplier = 2, max_add_times = 2, add_ratio = 0.3\<rparr>
     [Daily \<mapsto> 4, Hourly \<mapsto> 3] = Inr 122"
  using
    update_trailing_stop_gap_protection
      [of "[Daily \<mapsto> 130, Hourly \<mapsto> 128]" 130 128 "[Daily \<mapsto> 4, Hourly \<mapsto> 3]" 4 3
        "\<lparr>daily_multiplier = 3, hourly_multiplier = 2, max_add_times = 2, add_ratio = 0.3\<rparr>"
        "\<lparr>last_close = 130, entry_price = 100, current_risk = 6000, add_count = 0,
          init_size = 2000\<rparr>"]
    update_trailing_stop_gap_protection
      [of "[Daily \<mapsto> 130, Hourly \<mapsto> 128]" 130 128 "[Daily \<mapsto> 4, Hourly \<mapsto> 3]" 4 3
        "\<lparr>daily_multiplier = 3, hourly_multiplier = 2, max_add_times = 2, add_ratio = 0.3\<rparr>"
        "\<lparr>last_close = 120, entry_price = 100, current_risk = 6000, add_count = 0,
          init_size = 2000\<rparr>"]
  by simp

text \<open>
  C1 as stated. The function keeps no stop from one call to the next: the stop in force
  after an update is the value that update returns. Two successive updates of one
  position, same highs and same last close, the ATRs risen from 2 and 1 to 4 and 3: the
  stop goes from 128 down to 124.
\<close>

theorem update_trailing_stop_loosens:
  "update_trailing_stop
     \<lparr>last_close = 125, entry_price = 100, current_risk = 6000, add_count = 0,
      init_size = 2000\<rparr>
     [Daily \<mapsto> 130, Hourly \<mapsto> 130]
     \<lparr>daily_multiplier = 3, hourly_multiplier = 2, max_add_times = 2, add_ratio = 0.3\<rparr>
     [Daily \<mapsto> 2, Hourly \<mapsto> 1] = Inr 128
   \<and> update_trailing_stop
     \<lparr>last_close = 125, entry_price = 100, current_risk = 6000, add_count = 0,
      init_size = 2000\<rparr>
     [Daily \<mapsto> 130, Hourly \<mapsto> 130]
     \<lparr>daily_multiplier = 3, hourly_multiplier = 2, max_add_times = 2, add_ratio = 0.3\<rparr>
     [Daily \<mapsto> 4, Hourly \<mapsto> 3] = Inr 124
   \<and> \<not> (128 \<le> (124 :: real))"
  by (simp add: update_trailing_stop_def subscript_def)

text \<open>
  C1 as amended. Each update returns the largest of the daily stop, the hourly stop and
  98 percent of the last close, from that update's inputs alone. From one update to the
  next the returned stop does not fall when neither high and not the last close has
  fallen and neither ATR has risen, the multipliers being non-negative.
\<close>

theorem update_trailing_stop_monotone:
  assumes "new_high Daily = Some high_d" and "new_high Hourly = Some high_h"
    and "atr Daily = Some atr_d" and "atr Hourly = Some atr_h"
    and "new_high' Daily = Some high_d'" and "new_high' Hourly = Some high_h'"
    and "atr' Daily = Some atr_d'" and "atr' Hourly = Some atr_h'"
    and "0 \<le> daily_multiplier params" and "0 \<le> hourly_multiplier params"
    and "high_d \<le> high_d'" and "high_h \<le> high_h'"
    and "atr_d' \<le> atr_d" and "atr_h' \<le> atr_h"
    and "last_close strategy \<le> last_close strategy'"
  shows "\<exists>stop stop'.
           update_trailing_stop strategy new_high params atr = Inr stop
         \<and> update_trailing_stop strategy' new_high' params atr' = Inr stop'
         \<and> stop \<le> stop'
         \<and> stop = max (max (high_d - daily_multiplier params * atr_d)
                            (high_h - hourly_multiplier params * atr_h))
                       (last_close strategy * 0.98)"
proof -
  have d: "daily_multiplier params * atr_d' \<le> daily_multiplier params * atr_d"
    using assms(9,13) by (rule_tac mult_left_mono) simp_all
  have h: "hourly_multiplier params * atr_h' \<le> hourly_multiplier params * atr_h"
    using assms(10,14) by (rule_tac mult_left_mono) simp_all
  have "max (max (high_d - daily_multiplier params * atr_d)
                 (high_h - hourly_multiplier params * atr_h))
            (last_close strategy * 0.98)
        \<le> max (max (high_d' - daily_multiplier params * atr_d')
                   (high_h' - hourly_multiplier params * atr_h'))
              (last_close strategy' * 0.98)"
    using d h assms(11,12,15) by (intro max.mono) simp_all
  then show ?thesis
    unfolding update_trailing_stop_value [OF assms(1-4)]
      update_trailing_stop_value [OF assms(5-8)]
    by simp
qed

theorem update_trailing_stop_monotone_witness:
  "\<exists>stop stop'.
     update_trailing_stop
       \<lparr>last_close = 125, entry_price = 100, current_risk = 6000, add_count = 0,
        init_size = 2000\<rparr>
       [Daily \<mapsto> 130, Hourly \<mapsto> 130]
       \<lparr>daily_multiplier = 3, hourly_multiplier = 2, max_add_times = 2, add_ratio = 0.3\<rparr>
       [Daily \<mapsto> 4, Hourly \<mapsto> 3] = Inr stop
   \<and> update_trailing_stop
       \<lparr>last_close = 131, entry_price = 100, current_risk = 6000, add_count = 0,
        init_size = 2000\<rparr>
       [Daily \<mapsto> 132, Hourly \<mapsto> 132]
       \<lparr>daily_multiplier = 3, hourly_multiplier = 2, max_add_times = 2, add_ratio = 0.3\<rparr>
       [Daily \<mapsto> 4, Hourly \<mapsto> 2] = Inr stop'
   \<and> stop \<le> stop'
   \<and> stop = max (max (130 - 3 * 4) (130 - 2 * 3)) (125 * 0.98)"
  using update_trailing_stop_monotone
      [of "[Daily \<mapsto> 130, Hourly \<mapsto> 130]" 130 130 "[Daily \<mapsto> 4, Hourly \<mapsto> 3]" 4 3
        "[Daily \<mapsto> 132, Hourly \<mapsto> 132]" 132 132 "[Daily \<mapsto> 4, Hourly \<mapsto> 2]" 4 2
        "\<lparr>daily_multiplier = 3, hourly_multiplier = 2, max_add_times = 2, add_ratio = 0.3\<rparr>"
        "\<lparr>last_close = 125, entry_price = 100, current_risk = 6000, add_count = 0,
          init_size = 2000\<rparr>"
        "\<lparr>last_close = 131, entry_price = 100, current_risk = 6000, add_count = 0,
          init_size = 2000\<rparr>"]
  by simp

subsection \<open>Position size\<close>

lemma position_size_value:
  "entry \<noteq> initial_stop \<Longrightarrow>
   position_size account_value entry initial_stop =
     Inr (account_value * 0.01 / (entry - initial_stop))"
  by (simp add: position_size_def)

text \<open>
  C8 as stated. The claim's formula divides by the absolute distance for every valid
  stop distance, a short's stop above its entry included, and takes the risk fraction as
  an input. For entry 100 and stop 105, valid for a short, the formula gives 2000 and
  \<open>position_size\<close> gives -2000; for entry 100, stop 95 and a risk fraction of 0.02 the
  formula gives 4000, and \<open>position_size\<close>, which has no such input, gives 2000.
\<close>

theorem position_size_signed_distance:
  "\<not> invalid_stop_distance_spec Short 100 105
   \<and> initial_size_spec 1000000 0.01 100 105 = 2000
   \<and> position_size 1000000 100 105 = Inr (- 2000)
   \<and> \<not> invalid_stop_distance_spec Long 100 95
   \<and> initial_size_spec 1000000 0.02 100 95 = 4000
   \<and> position_size 1000000 100 95 = Inr 2000"
  by (simp add: invalid_stop_distance_spec_def initial_size_spec_def position_size_def)

text \<open>
  C8 as amended. The risk share is fixed at one percent and the divisor is the signed
  distance entry minus stop. For every input with the stop below the entry (the long
  case) the size is \<open>account_value * 0.01 / (entry - initial_stop)\<close>, which is the
  claim's formula at a risk fraction of 0.01; account 1,000,000, entry 100 and stop 95
  give exactly 2000.
\<close>

theorem position_size_long:
  "(initial_stop < entry \<longrightarrow>
      position_size account_value entry initial_stop =
        Inr (account_value * 0.01 / (entry - initial_stop))
    \<and> position_size account_value entry initial_stop =
        Inr (initial_size_spec account_value 0.01 entry initial_stop))
   \<and> position_size 1000000 100 95 = Inr 2000"
  by (simp add: position_size_def initial_size_spec_def)

theorem position_size_long_witness:
  "(95 :: real) < 100
   \<and> position_size 1000000 100 95 = Inr (1000000 * 0.01 / (100 - 95))
   \<and> position_size 1000000 100 95 = Inr (initial_size_spec 1000000 0.01 100 95)"
  using position_size_long [of 95 100 1000000]
  by (simp add: initial_size_spec_def)

text \<open>
  C9 as stated. A long entry at 50 with its stop at 60 has an invalid stop distance in
  the specification's sense, and \<open>position_size\<close> returns a size for it, -500, where the
  claim has it fail.
\<close>

theorem position_size_wrong_side_returns:
  "invalid_stop_distance_spec Long 50 60
   \<and> position_size 500000 50 60 = Inr (- 500)"
  by (simp add: invalid_stop_distance_spec_def position_size_def)

text \<open>
  C9 as amended. \<open>position_size\<close> fails exactly when the entry price equals the stop, and
  the failure is Python's \<open>ZeroDivisionError\<close>; no check of the stop's side is made. For
  every other input a size is returned, and with a positive account value it is negative
  when the stop is above the entry.
\<close>

theorem position_size_fails_iff:
  "(position_size account_value entry initial_stop = Inl ZeroDivisionError
      \<longleftrightarrow> entry = initial_stop)
   \<and> (\<forall>e. position_size account_value entry initial_stop = Inl e
          \<longrightarrow> entry = initial_stop \<and> e = ZeroDivisionError)
   \<and> (entry \<noteq> initial_stop \<longrightarrow>
        position_size account_value entry initial_stop =
          Inr (account_value * 0.01 / (entry - initial_stop)))
   \<and> (entry < initial_stop \<and> 0 < account_value \<longrightarrow>
        (\<exists>size_returned. position_size account_value entry initial_stop = Inr size_returned
           \<and> size_returned < 0))"
proof -
  have neg: "account_value * 0.01 / (entry - initial_stop) < 0"
    if "entry < initial_stop" and "0 < account_value"
    using that by (intro divide_pos_neg) simp_all
  show ?thesis
    using neg by (auto simp add: position_size_def simp del: times_divide_eq_left)
qed

theorem position_size_fails_iff_witness:
  "position_size 1000000 100 100 = Inl ZeroDivisionError
   \<and> (100 :: real) \<noteq> 95
   \<and> position_size 1000000 100 95 = Inr (1000000 * 0.01 / (100 - 95))
   \<and> (100 :: real) < 105 \<and> (0 :: real) < 1000000
   \<and> (\<exists>size_returned. position_size 1000000 100 105 = Inr size_returned
         \<and> size_returned < 0)"
  using position_size_fails_iff [of 1000000 100 100]
    position_size_fails_iff [of 1000000 100 95]
    position_size_fails_iff [of 1000000 100 105]
  by simp

subsection \<open>Pyramid adds\<close>

lemma add_position_check_Some_iff:
  "add_position_check current_price strategy initial_risk params atr_current \<noteq> None
   \<longleftrightarrow> current_price > entry_price strategy * 1.03
       \<and> current_risk strategy < initial_risk * 0.7
       \<and> add_count strategy < max_add_times params"
  by (simp add: add_position_check_def Let_def)

lemma add_position_check_args:
  "add_position_check current_price strategy initial_risk params atr_current = Some args
   \<Longrightarrow> new_lot_size args = init_size strategy * add_ratio params ^ add_count strategy
     \<and> price args = current_price \<and> stop args = current_price - 1.5 * atr_current"
  by (auto simp add: add_position_check_def Let_def split: if_splits)

text \<open>
  C2. The claim's scenario: initial size 2000, entry 100, price 130, current risk 6000
  of an initial risk of 10000, no add so far, at most two adds, add ratio 0.3, current
  ATR 3 (1.2 times an initial ATR of 2.5). \<open>add_position_check\<close> approves the add with
  a lot of 2000, the whole initial size, where the ladder has 600; with one add made it
  asks for 600 where the ladder has 300. The size is
  \<open>init_size * add_ratio ** add_count\<close>, and the exponent starts at zero.
\<close>

theorem add_position_check_first_add_full_size:
  "add_position_check 130
     \<lparr>last_close = 130, entry_price = 100, current_risk = 6000, add_count = 0,
      init_size = 2000\<rparr>
     10000
     \<lparr>daily_multiplier = 3, hourly_multiplier = 2, max_add_times = 2, add_ratio = 0.3\<rparr>
     3
   = Some \<lparr>price = 130, new_lot_size = 2000, stop = 125.5\<rparr>
   \<and> ladder_size_spec 2000 0 = Some 600
   \<and> add_position_check 130
     \<lparr>last_close = 130, entry_price = 100, current_risk = 6000, add_count = 1,
      init_size = 2000\<rparr>
     10000
     \<lparr>daily_multiplier = 3, hourly_multiplier = 2, max_add_times = 2, add_ratio = 0.3\<rparr>
     3
   = Some \<lparr>price = 130, new_lot_size = 600, stop = 125.5\<rparr>
   \<and> ladder_size_spec 2000 1 = Some 300"
  by (simp add: add_position_check_def ladder_size_spec_def)

text \<open>
  C3. \<open>add_position_check\<close> has three conditions and none of them reads the ATR. With
  the current ATR at 5, twice an initial ATR of 2.5, the fourth condition of the claim
  fails and the add is approved all the same. Its first condition is a price more than
  3 percent above the entry, not a new high: at 102, a new high since an entry at 100
  with the other three conditions of the claim met, no add is made.
\<close>

theorem add_position_check_ignores_atr:
  "add_position_check 130
     \<lparr>last_close = 130, entry_price = 100, current_risk = 6000, add_count = 1,
      init_size = 2000\<rparr>
     10000
     \<lparr>daily_multiplier = 3, hourly_multiplier = 2, max_add_times = 2, add_ratio = 0.3\<rparr>
     5
   = Some \<lparr>price = 130, new_lot_size = 600, stop = 122.5\<rparr>
   \<and> \<not> add_eligible_spec True 6000 10000 1 2 5 2.5
   \<and> add_position_check 102
     \<lparr>last_close = 102, entry_price = 100, current_risk = 6000, add_count = 1,
      init_size = 2000\<rparr>
     10000
     \<lparr>daily_multiplier = 3, hourly_multiplier = 2, max_add_times = 2, add_ratio = 0.3\<rparr>
     3
   = None
   \<and> add_eligible_spec True 6000 10000 1 2 3 2.5"
  by (simp add: add_position_check_def add_eligible_spec_def)

subsection \<open>Risk matrix\<close>

text \<open>
  C4. The evaluation records a volatility event exactly when the 15-minute ATR is above
  1.5 daily ATRs; that event is the only one with the action reduce-50, and the flag
  that tells the stop calculator to use the tightened multiplier is set in exactly the
  same case.
\<close>

theorem evaluate_volatility_spike:
  "map action (filter (\<lambda>e. kind e = Volatility) (events (evaluate pos snap))) =
     (if atr_15m snap > 1.5 * atr_daily snap then [Reduce_50] else [])
   \<and> (Reduce_50 \<in> set (map action (events (evaluate pos snap)))
        \<longleftrightarrow> atr_15m snap > 1.5 * atr_daily snap)
   \<and> tighten_stop_multiplier (evaluate pos snap) = (atr_15m snap > 1.5 * atr_daily snap)"
  by (auto simp add: evaluate_def event_if_def volatility_spike_def)

text \<open>
  C5. When the price has crossed the stop against the direction and the 15-minute ATR is
  above 1.5 daily ATRs in the same evaluation, the first event is the reversal, the
  mandatory action is flatten and not reduce-50, and the volatility event with its
  reduce-50 is still among the events.
\<close>

theorem evaluate_reversal_governs:
  assumes "trend_reversal pos snap" and "atr_15m snap > 1.5 * atr_daily snap"
  shows "mandatory_action (events (evaluate pos snap)) = Some Flatten
       \<and> mandatory_action (events (evaluate pos snap)) \<noteq> Some Reduce_50
       \<and> map action (filter (\<lambda>e. kind e = Volatility) (events (evaluate pos snap)))
           = [Reduce_50]
       \<and> map kind (take 1 (events (evaluate pos snap))) = [Reversal]"
  using assms
  by (simp add: evaluate_def event_if_def volatility_spike_def mandatory_action_def)

theorem evaluate_reversal_governs_witness:
  "trend_reversal \<lparr>direction = Long, final_stop = 100\<rparr>
     \<lparr>snapshot_time = 1, last_price = 99, order_book_depth = 50000,
      average_daily_volume = 100000, atr_15m = 4, atr_daily = 2,
      in_resistance_band = False, in_overnight_window = False,
      current_exposure = 0, overnight_limit = 1\<rparr>
   \<and> (4 :: real) > 1.5 * 2
   \<and> mandatory_action (events (evaluate \<lparr>direction = Long, final_stop = 100\<rparr>
     \<lparr>snapshot_time = 1, last_price = 99, order_book_depth = 50000,
      average_daily_volume = 100000, atr_15m = 4, atr_daily = 2,
      in_resistance_band = False, in_overnight_window = False,
      current_exposure = 0, overnight_limit = 1\<rparr>)) = Some Flatten
   \<and> map action (filter (\<lambda>e. kind e = Volatility)
       (events (evaluate \<lparr>direction = Long, final_stop = 100\<rparr>
     \<lparr>snapshot_time = 1, last_price = 99, order_book_depth = 50000,
      average_daily_volume = 100000, atr_15m = 4, atr_daily = 2,
      in_resistance_band = False, in_overnight_window = False,
      current_exposure = 0, overnight_limit = 1\<rparr>))) = [Reduce_50]"
  using evaluate_reversal_governs
      [of "\<lparr>direction = Long, final_stop = 100\<rparr>"
          "\<lparr>snapshot_time = 1, last_price = 99, order_book_depth = 50000,
            average_daily_volume = 100000, atr_15m = 4, atr_daily = 2,
            in_resistance_band = False, in_overnight_window = False,
            current_exposure = 0, overnight_limit = 1\<rparr>"]
  by (simp add: trend_reversal_def)

subsection \<open>Message history\<close>

lemma onmessage_exception_keeps:
  "snd (onmessage Malformed now messages) = messages"
  "snd (onmessage (Wellformed JNull) now messages) = messages"
  by (simp_all add: onmessage_def)

lemma onmessage_push_shift:
  "snd (onmessage (Wellformed (JValue ty dat)) now messages) =
     (if length messages < 100
      then messages @ [\<lparr>msg_id = now, msg_time = now, msg_type = ty, msg_data = dat\<rparr>]
      else tl messages @ [\<lparr>msg_id = now, msg_time = now, msg_type = ty, msg_data = dat\<rparr>])"
  by (cases messages) (auto simp add: onmessage_def Let_def)

text \<open>
  A \<open>market_data\<close> or \<open>order_update\<close> message whose \<open>data\<close> is \<open>null\<close> or
  \<open>undefined\<close> throws in the update function, after its entry has been pushed.
\<close>

lemma onmessage_null_data_throws_after_push:
  "dat = Null \<or> dat = Undefined \<Longrightarrow>
   ty = Some ''market_data'' \<or> ty = Some ''order_update'' \<Longrightarrow>
   onmessage (Wellformed (JValue ty dat)) now [] =
     (Some TypeError, [\<lparr>msg_id = now, msg_time = now, msg_type = ty, msg_data = dat\<rparr>])"
  by (auto simp add: onmessage_def dispatch_error_def)

lemma onmessage_length_le:
  assumes "length messages \<le> 100"
  shows "length (snd (onmessage event now messages)) \<le> 100"
proof (cases event)
  case Malformed
  with assms show ?thesis by (simp add: onmessage_def)
next
  case (Wellformed j)
  show ?thesis
  proof (cases j)
    case JNull
    with Wellformed assms show ?thesis by (simp add: onmessage_def)
  next
    case (JValue ty dat)
    with Wellformed assms show ?thesis
      unfolding Wellformed JValue onmessage_push_shift by auto
  qed
qed

lemma handle_all_length_le:
  "length messages \<le> 100 \<Longrightarrow> length (handle_all evs messages) \<le> 100"
proof (induction evs arbitrary: messages)
  case Nil
  then show ?case by simp
next
  case (Cons a evs)
  obtain event now where a: "a = (event, now)" by (cases a)
  from Cons.prems have "length (snd (onmessage event now messages)) \<le> 100"
    by (rule onmessage_length_le)
  then show ?case unfolding a by (simp add: Cons.IH)
qed

text \<open>
  C10 as stated. The claim has every incoming message append exactly one entry. A frame
  that is not JSON makes \<open>JSON.parse\<close> throw, and the JSON value \<open>null\<close> makes the
  read of \<open>message.type\<close> throw, both before the push: the empty history stays empty.
\<close>

theorem onmessage_throws_before_push:
  "onmessage Malformed 5 ([] :: unit history_entry list) = (Some SyntaxError, [])
   \<and> onmessage (Wellformed JNull) 5 ([] :: unit history_entry list) = (Some TypeError, [])
   \<and> length (snd (onmessage Malformed 5 ([] :: unit history_entry list))) \<noteq> 1"
  by (simp add: onmessage_def)

text \<open>
  C10 as amended. A run of the handler on a history of at most 100 entries leaves at
  most 100 entries, whatever the message. A message that parses as JSON to a value other
  than \<open>null\<close> appends exactly one entry, and when that makes 101 the oldest entry is
  removed. A frame that is not JSON, and the JSON value \<open>null\<close>, make the handler throw
  before the push and leave the history unchanged. From the empty history no sequence of
  events leaves more than 100 entries.
\<close>

theorem onmessage_history_bounded:
  "(length messages \<le> 100 \<longrightarrow> length (snd (onmessage event now messages)) \<le> 100)
   \<and> (length messages < 100 \<longrightarrow>
        snd (onmessage (Wellformed (JValue ty dat)) now messages) =
          messages @ [\<lparr>msg_id = now, msg_time = now, msg_type = ty, msg_data = dat\<rparr>])
   \<and> (length messages \<ge> 100 \<longrightarrow>
        snd (onmessage (Wellformed (JValue ty dat)) now messages) =
          tl messages @ [\<lparr>msg_id = now, msg_time = now, msg_type = ty, msg_data = dat\<rparr>])
   \<and> snd (onmessage Malformed now messages) = messages
   \<and> snd (onmessage (Wellformed JNull) now messages) = messages
   \<and> length (handle_all evs []) \<le> 100"
  using onmessage_length_le [of messages event now] handle_all_length_le [of "[]" evs]
  by (simp add: onmessage_push_shift onmessage_exception_keeps)

theorem onmessage_history_bounded_witness:
  "length (replicate 100
      \<lparr>msg_id = 0, msg_time = 0, msg_type = None, msg_data = Undefined :: unit js_prop\<rparr>) \<le> 100
   \<and> length (snd (onmessage (Wellformed (JValue (Some ''market_data'') (Present ()))) 7
        (replicate 100 \<lparr>msg_id = 0, msg_time = 0, msg_type = None, msg_data = Undefined\<rparr>)))
      \<le> 100
   \<and> snd (onmessage (Wellformed (JValue (Some ''market_data'') (Present ()))) 7
        (replicate 100 \<lparr>msg_id = 0, msg_time = 0, msg_type = None, msg_data = Undefined\<rparr>))
      = replicate 99 \<lparr>msg_id = 0, msg_time = 0, msg_type = None, msg_data = Undefined\<rparr>
        @ [\<lparr>msg_id = 7, msg_time = 7, msg_type = Some ''market_data'', msg_data = Present ()\<rparr>]
   \<and> snd (onmessage (Wellformed (JValue (Some ''order_update'') (Present ()))) 3 [])
      = [\<lparr>msg_id = 3, msg_time = 3, msg_type = Some ''order_update'', msg_data = Present ()\<rparr>]"
  using onmessage_history_bounded
      [of "replicate 100
            \<lparr>msg_id = 0, msg_time = 0, msg_type = None, msg_data = Undefined :: unit js_prop\<rparr>"
          "Wellformed (JValue (Some ''market_data'') (Present ()))" 7
          "Some ''market_data''" "Present ()" "[]"]
    onmessage_history_bounded
      [of "[] :: unit history_entry list"
          "Wellformed (JValue (Some ''order_update'') (Present ()))" 3
          "Some ''order_update''" "Present ()" "[]"]
  by (simp add: numeral_eq_Suc)

end
